theory Spec2Isabelle
  imports Complex_Main "HOL-Library.Multiset"
begin

section \<open>Receiptify (src/index.tsx): data model\<close>

subsection \<open>JavaScript numbers\<close>

text \<open>
  A JavaScript number is a finite double, one of the two infinities, or NaN. A finite
  double is kept as the rational number it is; the sign of zero is not represented.
  \<open>JSON.parse\<close> yields an infinity for a literal beyond the double range (\<open>1e999\<close>) and never
  yields NaN; \<open>parseFloat\<close> yields NaN for text that is no number. Arithmetic on numbers
  (the operator \<open>+\<close>, which rounds and overflows) is the runtime's: a function that computes
  with numbers takes it as a parameter.
\<close>

datatype jsnum = Finite rat | PosInfinity | NegInfinity | NaN

text \<open>Truthiness: the falsy numbers are zero and NaN, the falsy string is the empty one.\<close>

definition truthy_num :: "jsnum \<Rightarrow> bool" where
  "truthy_num n = (n \<noteq> Finite 0 \<and> n \<noteq> NaN)"

definition is_finite :: "jsnum \<Rightarrow> bool" where
  "is_finite n = (case n of Finite _ \<Rightarrow> True | _ \<Rightarrow> False)"

text \<open>
  \<open>a || b\<close> where \<open>a\<close> and \<open>b\<close> are properties that may be absent (\<open>None\<close> stands for
  \<open>undefined\<close> and \<open>null\<close>, both falsy), and \<open>a || d\<close> where \<open>d\<close> is a literal.
\<close>

definition or_prop :: "jsnum option \<Rightarrow> jsnum option \<Rightarrow> jsnum option" where
  "or_prop a b = (case a of None \<Rightarrow> b | Some n \<Rightarrow> if truthy_num n then Some n else b)"

definition or_number :: "jsnum option \<Rightarrow> jsnum \<Rightarrow> jsnum" where
  "or_number a d = (case a of None \<Rightarrow> d | Some n \<Rightarrow> if truthy_num n then n else d)"

definition or_str :: "string option \<Rightarrow> string \<Rightarrow> string" where
  "or_str a d = (case a of None \<Rightarrow> d | Some s \<Rightarrow> if s \<noteq> [] then s else d)"

subsection \<open>Records\<close>

text \<open>
  The shape is the \<open>responseSchema\<close> of \<open>handleImageChange\<close>. No property is guaranteed
  present in a decoded response or in a stored record, so every property is optional; the
  code guards each read with \<open>||\<close>.
\<close>

record LineItem =
  description :: "string option"
  description_en :: "string option"
  quantity :: "jsnum option"
  unit_price :: "jsnum option"
  price :: "jsnum option"

record ParsedData =
  merchant :: "string option"
  date :: "string option"
  total' :: "jsnum option"
  currency :: "string option"
  items :: "LineItem list option"

text \<open>An expense is the processed response with the property \<open>id: Date.now()\<close> added.\<close>

record Expense = ParsedData +
  id' :: int

subsection \<open>Normalisation of a decoded response (handleImageChange, lines 139-149)\<close>

text \<open>The callback of \<open>(parsedData.items || []).map(item => ...)\<close>.\<close>

definition normalize_item :: "LineItem \<Rightarrow> LineItem" where
  "normalize_item item =
     \<lparr>description = Some (or_str (description item) []),
      description_en = Some (or_str (description_en item) []),
      quantity = Some (or_number (quantity item) (Finite 1)),
      unit_price = Some (or_number (or_prop (unit_price item) (price item)) (Finite 0)),
      price = Some (or_number (price item) (Finite 0))\<rparr>"

text \<open>\<open>processedData = {...parsedData, items: (parsedData.items || []).map(...)}\<close>; an array is
  truthy even when empty.\<close>

definition processedData :: "ParsedData \<Rightarrow> ParsedData" where
  "processedData parsedData =
     parsedData\<lparr>items :=
       Some (map normalize_item (case items parsedData of None \<Rightarrow> [] | Some xs \<Rightarrow> xs))\<rparr>"

subsection \<open>Currency symbols (getCurrencySymbol, lines 72-84)\<close>

text \<open>Strings are byte sequences (UTF-8); the won and euro signs take three bytes each.\<close>

definition won_sign :: string where
  "won_sign = [CHR 0xE2, CHR 0x82, CHR 0xA9]"

definition dollar_sign :: string where
  "dollar_sign = ''$''"

definition euro_sign :: string where
  "euro_sign = [CHR 0xE2, CHR 0x82, CHR 0xAC]"

text \<open>
  \<open>String.prototype.toUpperCase\<close> is the runtime's and is a parameter: besides the ASCII
  letters it maps letters outside ASCII, some of them to ASCII capitals (U+017F to \<open>S\<close>).
  \<open>currency?.toUpperCase()\<close> is \<open>undefined\<close> for an absent currency, which no case matches.
\<close>

definition getCurrencySymbol :: "(string \<Rightarrow> string) \<Rightarrow> string option \<Rightarrow> string" where
  "getCurrencySymbol toUpperCase code =
     (case code of
        None \<Rightarrow> won_sign
      | Some c \<Rightarrow>
          (let u = toUpperCase c in
           if u = ''KRW'' \<or> u = ''WON'' then won_sign
           else if u = ''USD'' then dollar_sign
           else if u = ''EUR'' then euro_sign
           else won_sign))"

text \<open>
  What \<open>renderExpenseItem\<close> (lines 232-278) puts on the screen for one record, before number
  formatting: the symbol and amount of the total, and for each line item its quantity and
  the symbol and amount of its unit price and of its price.
\<close>

record line_view =
  line_quantity :: jsnum
  unit_price_symbol :: string
  unit_price_amount :: jsnum
  price_symbol :: string
  price_amount :: jsnum

record expense_view =
  merchant_text :: string
  date_text :: string
  total_symbol :: string
  total_amount :: jsnum
  line_items :: "line_view list"

definition renderLineItem ::
  "(string \<Rightarrow> string) \<Rightarrow> 'a ParsedData_scheme \<Rightarrow> LineItem \<Rightarrow> line_view" where
  "renderLineItem toUpperCase expense item =
     \<lparr>line_quantity = or_number (quantity item) (Finite 1),
      unit_price_symbol = getCurrencySymbol toUpperCase (currency expense),
      unit_price_amount = or_number (unit_price item) (Finite 0),
      price_symbol = getCurrencySymbol toUpperCase (currency expense),
      price_amount = or_number (price item) (Finite 0)\<rparr>"

definition renderExpenseItem :: "(string \<Rightarrow> string) \<Rightarrow> 'a ParsedData_scheme \<Rightarrow> expense_view" where
  "renderExpenseItem toUpperCase expense =
     \<lparr>merchant_text = or_str (merchant expense) ''N/A'',
      date_text = or_str (date expense) ''N/A'',
      total_symbol = getCurrencySymbol toUpperCase (currency expense),
      total_amount = or_number (total' expense) (Finite 0),
      line_items =
        (case items expense of
           None \<Rightarrow> []
         | Some xs \<Rightarrow> map (renderLineItem toUpperCase expense) xs)\<rparr>"

section \<open>Persistence\<close>

subsection \<open>JSON\<close>

text \<open>
  A text is represented by what \<open>JSON.parse\<close> makes of it: \<open>JSON v\<close> is a text that decodes
  to the value \<open>v\<close> of the shape the code expects (the response schema, or an array of
  expenses), \<open>Other t\<close> is any text \<open>t\<close> that \<open>JSON.parse\<close> rejects with a SyntaxError. Texts
  that decode to a value of another shape are not represented.
\<close>

datatype 'a json_text = JSON 'a | Other string

definition JSON_parse :: "'a json_text \<Rightarrow> 'a option" where
  "JSON_parse t = (case t of JSON v \<Rightarrow> Some v | Other _ \<Rightarrow> None)"

text \<open>
  \<open>JSON.stringify\<close> writes a number that is not finite as \<open>null\<close>, omits an absent property,
  and writes every other number, string and array as it is. Read back, \<open>null\<close> and an
  omitted property are both \<open>None\<close>.
\<close>

definition json_num :: "jsnum option \<Rightarrow> jsnum option" where
  "json_num x = (case x of Some (Finite r) \<Rightarrow> Some (Finite r) | _ \<Rightarrow> None)"

definition json_item :: "LineItem \<Rightarrow> LineItem" where
  "json_item item =
     item\<lparr>quantity := json_num (quantity item),
          unit_price := json_num (unit_price item),
          price := json_num (price item)\<rparr>"

definition json_expense :: "Expense \<Rightarrow> Expense" where
  "json_expense expense =
     expense\<lparr>total' := json_num (total' expense),
             items := map_option (map json_item) (items expense)\<rparr>"

definition JSON_stringify :: "Expense list \<Rightarrow> Expense list json_text" where
  "JSON_stringify xs = JSON (map json_expense xs)"

subsection \<open>localStorage\<close>

text \<open>
  The browser's key-value store: what it holds, and which writes it refuses by throwing
  (a full quota, a disabled store).
\<close>

record Storage =
  stored :: "string \<Rightarrow> Expense list json_text option"
  rejects :: "string \<Rightarrow> Expense list json_text \<Rightarrow> bool"

definition getItem :: "Storage \<Rightarrow> string \<Rightarrow> Expense list json_text option" where
  "getItem st k = stored st k"

definition setItem :: "Storage \<Rightarrow> string \<Rightarrow> Expense list json_text \<Rightarrow> Storage option" where
  "setItem st k v = (if rejects st k v then None else Some (st\<lparr>stored := (stored st)(k \<mapsto> v)\<rparr>))"

section \<open>The component App\<close>

datatype sort_order = Desc | Asc

text \<open>The eight \<open>useState\<close> cells of lines 11-18, and the store the effects write to.\<close>

record State =
  expenses :: "Expense list"
  image' :: "string option"
  isLoading :: bool
  error :: "string option"
  userId :: "string option"
  sortOrder :: sort_order
  editingId :: "int option"
  editedExpense :: "Expense option"
  localStorage :: Storage

definition initial :: "Storage \<Rightarrow> State" where
  "initial st =
     \<lparr>expenses = [], image' = None, isLoading = False, error = None, userId = None,
      sortOrder = Desc, editingId = None, editedExpense = None, localStorage = st\<rparr>"

definition storageKey :: "string \<Rightarrow> string" where
  "storageKey u = ''expenses_'' @ u"

text \<open>The load effect (lines 29-41). A string is falsy when empty; a JSON text never is.\<close>

definition useEffect_load :: "State \<Rightarrow> State" where
  "useEffect_load s =
     (case userId s of
        None \<Rightarrow> s
      | Some u \<Rightarrow>
          if u = [] then s
          else (case getItem (localStorage s) (storageKey u) of
                  None \<Rightarrow> s
                | Some storedExpenses \<Rightarrow>
                    if storedExpenses = Other [] then s
                    else (case JSON_parse storedExpenses of
                            Some xs \<Rightarrow> s\<lparr>expenses := xs\<rparr>
                          | None \<Rightarrow> s\<lparr>error := Some ''Could not load saved expenses.''\<rparr>)))"

text \<open>
  The save effect (lines 43-52). Its dependencies are \<open>expenses\<close> and \<open>userId\<close>; every
  \<open>setExpenses\<close> of the component installs a new array, so the effect runs after each of
  them.
\<close>

definition useEffect_save :: "State \<Rightarrow> State" where
  "useEffect_save s =
     (case userId s of
        None \<Rightarrow> s
      | Some u \<Rightarrow>
          if u = [] then s
          else (case setItem (localStorage s) (storageKey u) (JSON_stringify (expenses s)) of
                  Some st \<Rightarrow> s\<lparr>localStorage := st\<rparr>
                | None \<Rightarrow> s\<lparr>error := Some ''Could not save new expense.''\<rparr>))"

text \<open>What a later load for the identity of \<open>s\<close> would decode from the store.\<close>

definition persisted :: "State \<Rightarrow> Expense list option" where
  "persisted s =
     (case userId s of
        None \<Rightarrow> None
      | Some u \<Rightarrow>
          (case getItem (localStorage s) (storageKey u) of
             None \<Rightarrow> None
           | Some t \<Rightarrow> JSON_parse t))"

subsection \<open>Ingestion (fileToGenerativePart and handleImageChange, lines 54-70 and 86-163)\<close>

text \<open>
  A selected file: its media type, the object URL the browser makes for the preview, and
  what the FileReader ends with (a data URL, or \<open>None\<close> when the read fails or the result is
  no string).
\<close>

record File =
  file_type :: string
  object_url :: string
  reader_result :: "string option"

record Part =
  data :: "string option"
  mimeType :: string

datatype ingest_error = FileReadError | RequestError | DecodeError

text \<open>\<open>reader.result.split(",")[1]\<close>: the piece between the first comma and the second.\<close>

definition split_second :: "string \<Rightarrow> string option" where
  "split_second url =
     (case dropWhile (\<lambda>c. c \<noteq> CHR '','') url of
        [] \<Rightarrow> None
      | _ # rest \<Rightarrow> Some (takeWhile (\<lambda>c. c \<noteq> CHR '','') rest))"

definition fileToGenerativePart :: "File \<Rightarrow> ingest_error + Part" where
  "fileToGenerativePart file =
     (case reader_result file of
        None \<Rightarrow> Inl FileReadError
      | Some url \<Rightarrow> Inr \<lparr>data = split_second url, mimeType = file_type file\<rparr>)"

text \<open>
  The body of the \<open>try\<close> block up to \<open>processedData\<close>. The model request \<open>generateContent\<close>
  answers with a text or rejects (\<open>None\<close>, which also stands for a client that cannot be
  constructed); each failing stage leaves the block for the \<open>catch\<close> clause.
\<close>

definition try_block :: "(Part \<Rightarrow> ParsedData json_text option) \<Rightarrow> File \<Rightarrow> ingest_error + ParsedData" where
  "try_block generateContent file =
     (case fileToGenerativePart file of
        Inl err \<Rightarrow> Inl err
      | Inr imagePart \<Rightarrow>
          (case generateContent imagePart of
             None \<Rightarrow> Inl RequestError
           | Some response_text \<Rightarrow>
               (case JSON_parse response_text of
                  None \<Rightarrow> Inl DecodeError
                | Some parsedData \<Rightarrow> Inr (processedData parsedData))))"

text \<open>\<open>{ ...processedData, id: Date.now() }\<close>.\<close>

definition new_expense :: "ParsedData \<Rightarrow> int \<Rightarrow> Expense" where
  "new_expense pd now = ParsedData.extend pd (Expense.fields now)"

text \<open>The synchronous start of the handler, up to the first \<open>await\<close>.\<close>

definition handleImageChange_begin :: "File option \<Rightarrow> State \<Rightarrow> State" where
  "handleImageChange_begin file s =
     (case file of
        None \<Rightarrow> s
      | Some f \<Rightarrow> s\<lparr>error := None, image' := Some (object_url f), isLoading := True\<rparr>)"

text \<open>
  The rest of the handler, run when the awaited stages have settled; \<open>now\<close> is what
  \<open>Date.now()\<close> returns then. The updater of \<open>setExpenses\<close> reads the collection of that
  moment.
\<close>

definition handleImageChange_settle ::
  "(Part \<Rightarrow> ParsedData json_text option) \<Rightarrow> File \<Rightarrow> int \<Rightarrow> State \<Rightarrow> State" where
  "handleImageChange_settle generateContent file now s =
     (let s' =
        (case try_block generateContent file of
           Inr pd \<Rightarrow> useEffect_save (s\<lparr>expenses := new_expense pd now # expenses s\<rparr>)
         | Inl err \<Rightarrow> s\<lparr>error := Some ''Failed to process receipt. Please try another image.''\<rparr>)
      in s'\<lparr>isLoading := False, image' := None\<rparr>)"

definition handleImageChange ::
  "(Part \<Rightarrow> ParsedData json_text option) \<Rightarrow> File option \<Rightarrow> int \<Rightarrow> State \<Rightarrow> State" where
  "handleImageChange generateContent file now s =
     (case file of
        None \<Rightarrow> s
      | Some f \<Rightarrow> handleImageChange_settle generateContent f now (handleImageChange_begin file s))"

subsection \<open>Sorting, editing, deleting (lines 165-218)\<close>

definition toggleSortOrder :: "State \<Rightarrow> State" where
  "toggleSortOrder s = s\<lparr>sortOrder := (if sortOrder s = Desc then Asc else Desc)\<rparr>"

text \<open>\<open>JSON.parse(JSON.stringify(expense))\<close> is the JSON value of the record.\<close>

definition handleEdit :: "Expense \<Rightarrow> State \<Rightarrow> State" where
  "handleEdit expense s =
     s\<lparr>editingId := Some (id' expense), editedExpense := Some (json_expense expense)\<rparr>"

definition handleCancelEdit :: "State \<Rightarrow> State" where
  "handleCancelEdit s = s\<lparr>editingId := None, editedExpense := None\<rparr>"

text \<open>
  The Save button belongs to the edit form, so the handler runs with a buffer. Without one
  and without an editing id no \<open>exp.id === editingId\<close> holds and the collection keeps its
  records.
\<close>

definition handleSaveEdit :: "State \<Rightarrow> State" where
  "handleSaveEdit s =
     (case editedExpense s of
        Some buffer \<Rightarrow>
          useEffect_save (handleCancelEdit
            (s\<lparr>expenses := map (\<lambda>exp. if Some (id' exp) = editingId s then buffer else exp)
                               (expenses s)\<rparr>))
      | None \<Rightarrow> useEffect_save (handleCancelEdit s))"

definition handleDelete :: "int \<Rightarrow> bool \<Rightarrow> State \<Rightarrow> State" where
  "handleDelete i confirmed s =
     (if confirmed
      then useEffect_save (s\<lparr>expenses := filter (\<lambda>exp. id' exp \<noteq> i) (expenses s)\<rparr>)
      else s)"

text \<open>The \<open>name\<close> attributes of the inputs of the edit form (lines 284-310).\<close>

datatype field_name = merchant_input | date_input | total_input

datatype item_field_name =
  description_input | description_en_input | quantity_input | unit_price_input | price_input

text \<open>\<open>parseFloat\<close> is the runtime's; the handlers take it as a parameter.\<close>

definition handleFieldChange ::
  "(string \<Rightarrow> jsnum) \<Rightarrow> field_name \<Rightarrow> string \<Rightarrow> State \<Rightarrow> State" where
  "handleFieldChange parseFloat name v s =
     (case editedExpense s of
        None \<Rightarrow> s
      | Some prev \<Rightarrow>
          s\<lparr>editedExpense := Some
            (case name of
               merchant_input \<Rightarrow> prev\<lparr>merchant := Some v\<rparr>
             | date_input \<Rightarrow> prev\<lparr>date := Some v\<rparr>
             | total_input \<Rightarrow> prev\<lparr>total' := Some (or_number (Some (parseFloat v)) (Finite 0))\<rparr>)\<rparr>)"

definition set_item_field ::
  "(string \<Rightarrow> jsnum) \<Rightarrow> item_field_name \<Rightarrow> string \<Rightarrow> LineItem \<Rightarrow> LineItem" where
  "set_item_field parseFloat name v currentItem =
     (case name of
        description_input \<Rightarrow> currentItem\<lparr>description := Some v\<rparr>
      | description_en_input \<Rightarrow> currentItem\<lparr>description_en := Some v\<rparr>
      | quantity_input \<Rightarrow> currentItem\<lparr>quantity := Some (or_number (Some (parseFloat v)) (Finite 0))\<rparr>
      | unit_price_input \<Rightarrow>
          currentItem\<lparr>unit_price := Some (or_number (Some (parseFloat v)) (Finite 0))\<rparr>
      | price_input \<Rightarrow> currentItem\<lparr>price := Some (or_number (Some (parseFloat v)) (Finite 0))\<rparr>)"

text \<open>
  The item handlers read \<open>editedExpense.items\<close>: without a buffer or without an items array
  they throw and no state changes. The form passes the index of a row it rendered, so
  \<open>index\<close> is within the array; the model leaves the buffer alone for any other index.
\<close>

definition handleItemChange ::
  "(string \<Rightarrow> jsnum) \<Rightarrow> nat \<Rightarrow> item_field_name \<Rightarrow> string \<Rightarrow> State \<Rightarrow> State" where
  "handleItemChange parseFloat index name v s =
     (case editedExpense s of
        None \<Rightarrow> s
      | Some prev \<Rightarrow>
          (case items prev of
             None \<Rightarrow> s
           | Some its \<Rightarrow>
               if index < length its
               then s\<lparr>editedExpense := Some
                      (prev\<lparr>items := Some (its[index := set_item_field parseFloat name v (its ! index)])\<rparr>)\<rparr>
               else s))"

definition blank_item :: LineItem where
  "blank_item =
     \<lparr>description = Some [], description_en = Some [], quantity = Some (Finite 1),
      unit_price = Some (Finite 0), price = Some (Finite 0)\<rparr>"

definition handleAddItem :: "State \<Rightarrow> State" where
  "handleAddItem s =
     (case editedExpense s of
        None \<Rightarrow> s
      | Some prev \<Rightarrow>
          (case items prev of
             None \<Rightarrow> s
           | Some its \<Rightarrow> s\<lparr>editedExpense := Some (prev\<lparr>items := Some (its @ [blank_item])\<rparr>)\<rparr>))"

definition handleRemoveItem :: "nat \<Rightarrow> State \<Rightarrow> State" where
  "handleRemoveItem index s =
     (case editedExpense s of
        None \<Rightarrow> s
      | Some prev \<Rightarrow>
          (case items prev of
             None \<Rightarrow> s
           | Some its \<Rightarrow>
               s\<lparr>editedExpense := Some
                 (prev\<lparr>items := Some (map snd (filter (\<lambda>(i, _). i \<noteq> index)
                                                      (zip [0..<length its] its)))\<rparr>)\<rparr>))"

text \<open>One input event of the edit form.\<close>

datatype edit =
  FieldChange field_name string
| ItemChange nat item_field_name string
| AddItem
| RemoveItem nat

fun apply_edit :: "(string \<Rightarrow> jsnum) \<Rightarrow> edit \<Rightarrow> State \<Rightarrow> State" where
  "apply_edit parseFloat (FieldChange name v) s = handleFieldChange parseFloat name v s"
| "apply_edit parseFloat (ItemChange index name v) s = handleItemChange parseFloat index name v s"
| "apply_edit parseFloat AddItem s = handleAddItem s"
| "apply_edit parseFloat (RemoveItem index) s = handleRemoveItem index s"

fun apply_edits :: "(string \<Rightarrow> jsnum) \<Rightarrow> edit list \<Rightarrow> State \<Rightarrow> State" where
  "apply_edits parseFloat [] s = s"
| "apply_edits parseFloat (e # es) s = apply_edits parseFloat es (apply_edit parseFloat e s)"

subsection \<open>Derived values of a render (lines 220-230)\<close>

text \<open>
  \<open>Date_parse\<close> stands for the runtime's reading of a date string: its time value in
  milliseconds since the epoch, or \<open>None\<close> for an invalid date, whose \<open>getTime()\<close> is NaN.
  A falsy date (absent or empty) is read as \<open>new Date(0)\<close>.
\<close>

definition getTime :: "(string \<Rightarrow> int option) \<Rightarrow> 'a ParsedData_scheme \<Rightarrow> int option" where
  "getTime Date_parse a =
     (case date a of
        None \<Rightarrow> Some 0
      | Some d \<Rightarrow> if d = [] then Some 0 else Date_parse d)"

text \<open>The comparator of line 220. A difference with NaN is NaN, which \<open>sort\<close> takes as 0.\<close>

definition compareFn ::
  "(string \<Rightarrow> int option) \<Rightarrow> sort_order \<Rightarrow> 'a ParsedData_scheme \<Rightarrow> 'a ParsedData_scheme \<Rightarrow> int" where
  "compareFn Date_parse order a b =
     (case (getTime Date_parse a, getTime Date_parse b) of
        (Some dateA, Some dateB) \<Rightarrow> (if order = Desc then dateB - dateA else dateA - dateB)
      | _ \<Rightarrow> 0)"

text \<open>
  \<open>Array.prototype.sort\<close> is stable: \<open>a\<close> comes before \<open>b\<close> when the comparator is negative
  on them, and elements it holds equal keep their order. For a consistent comparator that
  fixes the result, which the insertion sort below computes.
\<close>

fun insert_by :: "('a \<Rightarrow> 'a \<Rightarrow> int) \<Rightarrow> 'a \<Rightarrow> 'a list \<Rightarrow> 'a list" where
  "insert_by cmp x [] = [x]"
| "insert_by cmp x (y # ys) = (if cmp x y \<le> 0 then x # y # ys else y # insert_by cmp x ys)"

definition Array_sort :: "('a \<Rightarrow> 'a \<Rightarrow> int) \<Rightarrow> 'a list \<Rightarrow> 'a list" where
  "Array_sort cmp xs = foldr (insert_by cmp) xs []"

definition sortedExpenses :: "(string \<Rightarrow> int option) \<Rightarrow> State \<Rightarrow> Expense list" where
  "sortedExpenses Date_parse s = Array_sort (compareFn Date_parse (sortOrder s)) (expenses s)"

text \<open>
  \<open>sort\<close> works in place. Arrays live at addresses of a heap (the index into a list of
  arrays); \<open>[...expenses]\<close> allocates a copy, and the copy is what gets sorted.
\<close>

type_synonym heap = "Expense list list"

definition spread :: "heap \<Rightarrow> nat \<Rightarrow> heap \<times> nat" where
  "spread h a = (h @ [h ! a], length h)"

definition sort_in_place :: "(Expense \<Rightarrow> Expense \<Rightarrow> int) \<Rightarrow> heap \<Rightarrow> nat \<Rightarrow> heap \<times> nat" where
  "sort_in_place cmp h a = (h[a := Array_sort cmp (h ! a)], a)"

definition sortedExpenses_on_heap ::
  "(string \<Rightarrow> int option) \<Rightarrow> sort_order \<Rightarrow> heap \<Rightarrow> nat \<Rightarrow> heap \<times> nat" where
  "sortedExpenses_on_heap Date_parse order h expenses_ref =
     (case spread h expenses_ref of
        (h', copy_ref) \<Rightarrow> sort_in_place (compareFn Date_parse order) h' copy_ref)"



subsection \<open>Values that JSON carries unchanged\<close>

definition json_safe_num :: "jsnum option \<Rightarrow> bool" where
  "json_safe_num x = (case x of None \<Rightarrow> True | Some n \<Rightarrow> is_finite n)"

definition json_safe_item :: "LineItem \<Rightarrow> bool" where
  "json_safe_item item =
     (json_safe_num (quantity item) \<and> json_safe_num (unit_price item) \<and> json_safe_num (price item))"

definition json_safe_expense :: "Expense \<Rightarrow> bool" where
  "json_safe_expense expense =
     (json_safe_num (total' expense) \<and>
      (case items expense of None \<Rightarrow> True | Some its \<Rightarrow> list_all json_safe_item its))"

subsection \<open>Example inputs\<close>

definition example_file :: File where
  "example_file =
     \<lparr>file_type = ''image/png'', object_url = ''blob:receipt'',
      reader_result = Some ''data:image/png;base64,iVBORw0KGgo=''\<rparr>"

definition unreadable_file :: File where
  "unreadable_file =
     \<lparr>file_type = ''image/png'', object_url = ''blob:receipt'', reader_result = None\<rparr>"

definition example_response :: ParsedData where
  "example_response =
     \<lparr>merchant = Some ''Mart'', date = Some ''2024-05-01'', total' = Some (Finite 1200),
      currency = Some ''KRW'',
      items = Some [\<lparr>description = Some ''Milk'', description_en = Some ''Milk'',
                     quantity = None, unit_price = None, price = Some (Finite 1200)\<rparr>]\<rparr>"

definition example_model :: "Part \<Rightarrow> ParsedData json_text option" where
  "example_model imagePart = Some (JSON example_response)"

definition empty_storage :: Storage where
  "empty_storage = \<lparr>stored = (\<lambda>k. None), rejects = (\<lambda>k v. False)\<rparr>"

text \<open>A store that holds an empty collection for \<open>user_1\<close> and refuses every write.\<close>

definition full_storage :: Storage where
  "full_storage =
     \<lparr>stored = (\<lambda>k. if k = ''expenses_user_1'' then Some (JSON []) else None),
      rejects = (\<lambda>k v. True)\<rparr>"

text \<open>A response whose total is written \<open>1e999\<close>, which \<open>JSON.parse\<close> reads as \<open>Infinity\<close>.\<close>

definition overflow_response :: ParsedData where
  "overflow_response =
     \<lparr>merchant = Some ''Mart'', date = Some ''2024-05-01'', total' = Some PosInfinity,
      currency = Some ''KRW'', items = Some []\<rparr>"

definition overflow_model :: "Part \<Rightarrow> ParsedData json_text option" where
  "overflow_model imagePart = Some (JSON overflow_response)"

definition milk_expense :: Expense where
  "milk_expense = new_expense (processedData example_response) 1714521600000"

definition undated_expense :: Expense where
  "undated_expense =
     \<lparr>merchant = Some ''Kiosk'', date = None, total' = None, currency = Some ''USD'',
      items = Some [], id' = 1714521500000\<rparr>"

definition example_state :: State where
  "example_state =
     (initial empty_storage)\<lparr>userId := Some ''user_1'', expenses := [milk_expense, undated_expense]\<rparr>"

definition example_parseFloat :: "string \<Rightarrow> jsnum" where
  "example_parseFloat v = (if v = ''1500'' then Finite 1500 else NaN)"

text \<open>
  \<open>toUpperCase\<close> on strings of ASCII characters, where it maps the letters a-z to A-Z and
  keeps every other character. The examples apply it to such strings only.
\<close>

definition ascii_upper_char :: "char \<Rightarrow> char" where
  "ascii_upper_char c =
     (let n = (of_char c :: nat) in if 97 \<le> n \<and> n \<le> 122 then char_of (n - 32) else c)"

definition ascii_toUpperCase :: "string \<Rightarrow> string" where
  "ascii_toUpperCase s = map ascii_upper_char s"





text \<open>A second response, about another merchant.\<close>

definition cafe_response :: ParsedData where
  "cafe_response =
     \<lparr>merchant = Some ''Cafe'', date = Some ''2024-05-01'', total' = Some (Finite 900),
      currency = Some ''KRW'', items = Some []\<rparr>"

definition cafe_model :: "Part \<Rightarrow> ParsedData json_text option" where
  "cafe_model imagePart = Some (JSON cafe_response)"

definition cafe_expense :: Expense where
  "cafe_expense = new_expense (processedData cafe_response) 1714521600000"

subsection \<open>Reading the sort\<close>

text \<open>A record whose date the runtime can read: absent, empty, or a valid date string.\<close>

definition valid_date :: "(string \<Rightarrow> int option) \<Rightarrow> 'a ParsedData_scheme \<Rightarrow> bool" where
  "valid_date Date_parse a = (getTime Date_parse a \<noteq> None)"

definition time_value :: "(string \<Rightarrow> int option) \<Rightarrow> 'a ParsedData_scheme \<Rightarrow> int" where
  "time_value Date_parse a = (case getTime Date_parse a of Some t \<Rightarrow> t | None \<Rightarrow> 0)"

definition sort_key_of ::
  "(string \<Rightarrow> int option) \<Rightarrow> sort_order \<Rightarrow> 'a ParsedData_scheme \<Rightarrow> int" where
  "sort_key_of Date_parse order a =
     (if order = Desc then - time_value Date_parse a else time_value Date_parse a)"

text \<open>The time values of two date strings, as \<open>new Date(d).getTime()\<close> gives them.\<close>

definition example_Date_parse :: "string \<Rightarrow> int option" where
  "example_Date_parse d =
     (if d = ''1969-12-31'' then Some (- 86400000)
      else if d = ''2024-05-01'' then Some 1714521600000
      else None)"

definition old_expense :: Expense where
  "old_expense =
     \<lparr>merchant = Some ''Diner'', date = Some ''1969-12-31'', total' = Some (Finite 3),
      currency = Some ''USD'', items = Some [], id' = 1714521700000\<rparr>"

subsection \<open>Reachable states\<close>

text \<open>Every collection the store holds has pairwise different ids.\<close>

definition storage_unique :: "Storage \<Rightarrow> bool" where
  "storage_unique st = (\<forall>k xs. stored st k = Some (JSON xs) \<longrightarrow> distinct (map id' xs))"

text \<open>
  The states the component reaches from its first render over such a store, by the
  identity effect setting \<open>userId\<close>, the load and save effects, and the handlers. A settling
  ingestion that succeeds is taken at a clock reading that is no id of the collection.
  \<open>handleEdit\<close> is called with a rendered record, one of the collection; the inputs and
  buttons of the edit form exist while there is a buffer.
\<close>

inductive reachable :: "State \<Rightarrow> bool" where
  start: "storage_unique st \<Longrightarrow> reachable (initial st)"
| identity: "reachable s \<Longrightarrow> reachable (s\<lparr>userId := Some u\<rparr>)"
| load: "reachable s \<Longrightarrow> reachable (useEffect_load s)"
| save: "reachable s \<Longrightarrow> reachable (useEffect_save s)"
| select: "reachable s \<Longrightarrow> reachable (handleImageChange_begin file s)"
| settle: "reachable s \<Longrightarrow>
     (\<exists>err. try_block generateContent file = Inl err) \<or> now \<notin> id' ` set (expenses s) \<Longrightarrow>
     reachable (handleImageChange_settle generateContent file now s)"
| toggle: "reachable s \<Longrightarrow> reachable (toggleSortOrder s)"
| edit: "reachable s \<Longrightarrow> expense \<in> set (expenses s) \<Longrightarrow> reachable (handleEdit expense s)"
| change: "reachable s \<Longrightarrow> editedExpense s \<noteq> None \<Longrightarrow> reachable (apply_edit parseFloat e s)"
| cancel: "reachable s \<Longrightarrow> editedExpense s \<noteq> None \<Longrightarrow> reachable (handleCancelEdit s)"
| commit: "reachable s \<Longrightarrow> editedExpense s \<noteq> None \<Longrightarrow> reachable (handleSaveEdit s)"
| delete: "reachable s \<Longrightarrow> reachable (handleDelete i confirmed s)"

definition unique_ids :: "State \<Rightarrow> bool" where
  "unique_ids s =
     (distinct (map id' (expenses s)) \<and>
      (\<forall>buffer. editedExpense s = Some buffer \<longrightarrow> editingId s = Some (id' buffer)) \<and>
      storage_unique (localStorage s))"

section \<open>Properties\<close>

subsection \<open>Normalisation\<close>

text \<open>
  C2. Each line item of a decoded response is normalised so: an absent quantity becomes 1;
  an absent unit price becomes the item's price, and 0 when the price is absent too; an
  absent price becomes 0. In particular an item without unit price and with price 1200
  gets unit price 1200.
\<close>

theorem C2_item_normalisation:
  "(quantity item = None \<longrightarrow> quantity (normalize_item item) = Some (Finite 1)) \<and>
   (unit_price item = None \<longrightarrow>
      (\<forall>p. price item = Some p \<longrightarrow> p \<noteq> NaN \<longrightarrow> unit_price (normalize_item item) = Some p) \<and>
      (price item = None \<longrightarrow> unit_price (normalize_item item) = Some (Finite 0))) \<and>
   (price item = None \<longrightarrow> price (normalize_item item) = Some (Finite 0)) \<and>
   (unit_price item = None \<and> price item = Some (Finite 1200) \<longrightarrow>
      unit_price (normalize_item item) = Some (Finite 1200)) \<and>
   (\<forall>xs. items parsedData = Some xs \<longrightarrow>
      items (processedData parsedData) = Some (map normalize_item xs))"
  by (auto simp: normalize_item_def processedData_def or_number_def or_prop_def truthy_num_def)

theorem C2_item_normalisation_witness:
  "unit_price (normalize_item
      \<lparr>description = Some ''Milk'', description_en = Some ''Milk'', quantity = None,
       unit_price = None, price = Some (Finite 1200)\<rparr>) = Some (Finite 1200) \<and>
   quantity (normalize_item
      \<lparr>description = Some ''Milk'', description_en = Some ''Milk'', quantity = None,
       unit_price = None, price = Some (Finite 1200)\<rparr>) = Some (Finite 1) \<and>
   unit_price (normalize_item
      \<lparr>description = None, description_en = None, quantity = Some (Finite 2),
       unit_price = None, price = None\<rparr>) = Some (Finite 0) \<and>
   price (normalize_item
      \<lparr>description = None, description_en = None, quantity = Some (Finite 2),
       unit_price = None, price = None\<rparr>) = Some (Finite 0) \<and>
   items (processedData
      \<lparr>merchant = Some ''Mart'', date = Some ''2024-05-01'', total' = Some (Finite 1200),
       currency = None,
       items = Some [\<lparr>description = None, description_en = None, quantity = Some (Finite 2),
                      unit_price = None, price = None\<rparr>]\<rparr>) =
     Some [normalize_item \<lparr>description = None, description_en = None,
             quantity = Some (Finite 2), unit_price = None, price = None\<rparr>]"
  using
    C2_item_normalisation
      [of "\<lparr>description = Some ''Milk'', description_en = Some ''Milk'', quantity = None,
            unit_price = None, price = Some (Finite 1200)\<rparr>"
          "\<lparr>merchant = Some ''Mart'', date = Some ''2024-05-01'', total' = Some (Finite 1200),
            currency = None,
            items = Some [\<lparr>description = None, description_en = None,
                           quantity = Some (Finite 2), unit_price = None, price = None\<rparr>]\<rparr>"]
    C2_item_normalisation
      [of "\<lparr>description = None, description_en = None, quantity = Some (Finite 2),
            unit_price = None, price = None\<rparr>"
          "\<lparr>merchant = None, date = None, total' = None, currency = None, items = None\<rparr>"]
  by simp

text \<open>
  C10. Normalisation treats a unit price of 0 as it treats an absent one: when the unit
  price is 0 and the price is a nonzero number \<open>p\<close>, the normalised unit price is \<open>p\<close>.
\<close>

theorem C10_zero_unit_price_overwritten:
  "(unit_price item = Some (Finite 0) \<longrightarrow> price item = Some p \<longrightarrow> p \<noteq> Finite 0 \<longrightarrow> p \<noteq> NaN \<longrightarrow>
      unit_price (normalize_item item) = Some p) \<and>
   normalize_item (item\<lparr>unit_price := Some (Finite 0)\<rparr>) =
     normalize_item (item\<lparr>unit_price := None\<rparr>)"
  by (simp add: normalize_item_def or_number_def or_prop_def truthy_num_def)

theorem C10_zero_unit_price_overwritten_witness:
  "unit_price (normalize_item
      \<lparr>description = Some ''Bag'', description_en = Some ''Bag'', quantity = Some (Finite 1),
       unit_price = Some (Finite 0), price = Some (Finite 50)\<rparr>) = Some (Finite 50)"
  using
    C10_zero_unit_price_overwritten
      [of "\<lparr>description = Some ''Bag'', description_en = Some ''Bag'',
            quantity = Some (Finite 1), unit_price = Some (Finite 0),
            price = Some (Finite 50)\<rparr>" "Finite 50", THEN conjunct1]
  by simp

subsection \<open>Currency symbols\<close>

lemma ascii_toUpperCase_codes:
  "ascii_toUpperCase ''KRW'' = ''KRW''" "ascii_toUpperCase ''WON'' = ''WON''"
  "ascii_toUpperCase ''USD'' = ''USD''" "ascii_toUpperCase ''EUR'' = ''EUR''"
  "ascii_toUpperCase ''usd'' = ''USD''" "ascii_toUpperCase ''JPY'' = ''JPY''"
  by code_simp+

lemma rendered_symbols:
  "total_symbol (renderExpenseItem toUpperCase expense) =
     getCurrencySymbol toUpperCase (currency expense) \<and>
   (\<forall>its. items expense = Some its \<longrightarrow>
      map unit_price_symbol (line_items (renderExpenseItem toUpperCase expense)) =
        replicate (length its) (getCurrencySymbol toUpperCase (currency expense)) \<and>
      map price_symbol (line_items (renderExpenseItem toUpperCase expense)) =
        replicate (length its) (getCurrencySymbol toUpperCase (currency expense)))"
  by (simp add: renderExpenseItem_def renderLineItem_def comp_def map_replicate_const)

text \<open>
  C9. For a record whose currency is absent or is an unrecognised code (one that
  \<open>toUpperCase\<close> does not turn into KRW, WON, USD or EUR), the symbol looked up is the default
  symbol, the won sign, and it is the symbol shown with the total and, for each of the
  record's items, with the unit price and with the price of its line. A code that
  \<open>toUpperCase\<close> turns into KRW or WON gets the won sign, into USD the dollar sign, into EUR
  the euro sign; the three signs differ (the default is the sign of KRW and WON). This
  holds whatever function the runtime's \<open>toUpperCase\<close> is.
\<close>

theorem C9_currency_symbol:
  "(currency expense = None \<or>
      (\<exists>c. currency expense = Some c \<and> toUpperCase c \<notin> {''KRW'', ''WON'', ''USD'', ''EUR''}) \<longrightarrow>
      getCurrencySymbol toUpperCase (currency expense) = won_sign \<and>
      total_symbol (renderExpenseItem toUpperCase expense) = won_sign \<and>
      (\<forall>its. items expense = Some its \<longrightarrow>
         map unit_price_symbol (line_items (renderExpenseItem toUpperCase expense)) =
           replicate (length its) won_sign \<and>
         map price_symbol (line_items (renderExpenseItem toUpperCase expense)) =
           replicate (length its) won_sign)) \<and>
   (\<forall>c. toUpperCase c = ''KRW'' \<or> toUpperCase c = ''WON'' \<longrightarrow>
      getCurrencySymbol toUpperCase (Some c) = won_sign) \<and>
   (\<forall>c. toUpperCase c = ''USD'' \<longrightarrow> getCurrencySymbol toUpperCase (Some c) = dollar_sign) \<and>
   (\<forall>c. toUpperCase c = ''EUR'' \<longrightarrow> getCurrencySymbol toUpperCase (Some c) = euro_sign) \<and>
   dollar_sign \<noteq> won_sign \<and> euro_sign \<noteq> won_sign \<and> dollar_sign \<noteq> euro_sign"
proof -
  have default: "getCurrencySymbol toUpperCase (currency expense) = won_sign"
    if "currency expense = None \<or>
        (\<exists>c. currency expense = Some c \<and> toUpperCase c \<notin> {''KRW'', ''WON'', ''USD'', ''EUR''})"
    using that by (auto simp: getCurrencySymbol_def Let_def)
  have shown: "currency expense = None \<or>
      (\<exists>c. currency expense = Some c \<and> toUpperCase c \<notin> {''KRW'', ''WON'', ''USD'', ''EUR''}) \<longrightarrow>
      getCurrencySymbol toUpperCase (currency expense) = won_sign \<and>
      total_symbol (renderExpenseItem toUpperCase expense) = won_sign \<and>
      (\<forall>its. items expense = Some its \<longrightarrow>
         map unit_price_symbol (line_items (renderExpenseItem toUpperCase expense)) =
           replicate (length its) won_sign \<and>
         map price_symbol (line_items (renderExpenseItem toUpperCase expense)) =
           replicate (length its) won_sign)"
    using default rendered_symbols [of toUpperCase expense] by simp
  have codes:
    "\<forall>c. toUpperCase c = ''KRW'' \<or> toUpperCase c = ''WON'' \<longrightarrow>
       getCurrencySymbol toUpperCase (Some c) = won_sign"
    "\<forall>c. toUpperCase c = ''USD'' \<longrightarrow> getCurrencySymbol toUpperCase (Some c) = dollar_sign"
    "\<forall>c. toUpperCase c = ''EUR'' \<longrightarrow> getCurrencySymbol toUpperCase (Some c) = euro_sign"
    by (auto simp: getCurrencySymbol_def Let_def)
  have distinct_signs: "dollar_sign \<noteq> won_sign" "euro_sign \<noteq> won_sign" "dollar_sign \<noteq> euro_sign"
    by (simp_all add: dollar_sign_def won_sign_def euro_sign_def)
  from shown codes distinct_signs show ?thesis
    by blast
qed

theorem C9_currency_symbol_witness:
  "total_symbol (renderExpenseItem ascii_toUpperCase
      \<lparr>merchant = Some ''Cafe'', date = Some ''2024-05-01'', total' = Some (Finite 900),
       currency = Some ''JPY'',
       items = Some [\<lparr>description = Some ''Tea'', description_en = Some ''Tea'',
                      quantity = Some (Finite 1), unit_price = Some (Finite 900),
                      price = Some (Finite 900)\<rparr>],
       id' = 1714521600000\<rparr>) = won_sign \<and>
   map unit_price_symbol (line_items (renderExpenseItem ascii_toUpperCase
      \<lparr>merchant = Some ''Cafe'', date = Some ''2024-05-01'', total' = Some (Finite 900),
       currency = Some ''JPY'',
       items = Some [\<lparr>description = Some ''Tea'', description_en = Some ''Tea'',
                      quantity = Some (Finite 1), unit_price = Some (Finite 900),
                      price = Some (Finite 900)\<rparr>],
       id' = 1714521600000\<rparr>)) = [won_sign] \<and>
   map price_symbol (line_items (renderExpenseItem ascii_toUpperCase
      \<lparr>merchant = Some ''Cafe'', date = Some ''2024-05-01'', total' = Some (Finite 900),
       currency = Some ''JPY'',
       items = Some [\<lparr>description = Some ''Tea'', description_en = Some ''Tea'',
                      quantity = Some (Finite 1), unit_price = Some (Finite 900),
                      price = Some (Finite 900)\<rparr>],
       id' = 1714521600000\<rparr>)) = [won_sign] \<and>
   getCurrencySymbol ascii_toUpperCase (Some ''KRW'') = won_sign \<and>
   getCurrencySymbol ascii_toUpperCase (Some ''WON'') = won_sign \<and>
   getCurrencySymbol ascii_toUpperCase (Some ''USD'') = dollar_sign \<and>
   getCurrencySymbol ascii_toUpperCase (Some ''usd'') = dollar_sign \<and>
   getCurrencySymbol ascii_toUpperCase (Some ''EUR'') = euro_sign"
proof -
  let ?e = "\<lparr>merchant = Some ''Cafe'', date = Some ''2024-05-01'', total' = Some (Finite 900),
       currency = Some ''JPY'',
       items = Some [\<lparr>description = Some ''Tea'', description_en = Some ''Tea'',
                      quantity = Some (Finite 1), unit_price = Some (Finite 900),
                      price = Some (Finite 900)\<rparr>],
       id' = 1714521600000\<rparr>"
  note c9 = C9_currency_symbol [of ?e ascii_toUpperCase]
  have unknown: "currency ?e = None \<or>
      (\<exists>c. currency ?e = Some c \<and> ascii_toUpperCase c \<notin> {''KRW'', ''WON'', ''USD'', ''EUR''})"
    by (simp add: ascii_toUpperCase_codes)
  have its: "items ?e = Some [\<lparr>description = Some ''Tea'', description_en = Some ''Tea'',
                      quantity = Some (Finite 1), unit_price = Some (Finite 900),
                      price = Some (Finite 900)\<rparr>]"
    by simp
  from c9 unknown have total: "total_symbol (renderExpenseItem ascii_toUpperCase ?e) = won_sign"
    by blast
  from c9 unknown its
  have lines: "map unit_price_symbol (line_items (renderExpenseItem ascii_toUpperCase ?e)) =
      replicate (length [\<lparr>description = Some ''Tea'', description_en = Some ''Tea'',
                      quantity = Some (Finite 1), unit_price = Some (Finite 900),
                      price = Some (Finite 900)\<rparr>]) won_sign"
    "map price_symbol (line_items (renderExpenseItem ascii_toUpperCase ?e)) =
      replicate (length [\<lparr>description = Some ''Tea'', description_en = Some ''Tea'',
                      quantity = Some (Finite 1), unit_price = Some (Finite 900),
                      price = Some (Finite 900)\<rparr>]) won_sign"
    by blast+
  from c9 have codes:
    "getCurrencySymbol ascii_toUpperCase (Some ''KRW'') = won_sign"
    "getCurrencySymbol ascii_toUpperCase (Some ''WON'') = won_sign"
    "getCurrencySymbol ascii_toUpperCase (Some ''USD'') = dollar_sign"
    "getCurrencySymbol ascii_toUpperCase (Some ''usd'') = dollar_sign"
    "getCurrencySymbol ascii_toUpperCase (Some ''EUR'') = euro_sign"
    using ascii_toUpperCase_codes by blast+
  from total lines codes show ?thesis
    by simp
qed

subsection \<open>Ingestion\<close>

lemma try_block_fails_iff:
  "(\<exists>err. try_block generateContent file = Inl err) \<longleftrightarrow>
   (reader_result file = None \<or>
    (\<exists>part. fileToGenerativePart file = Inr part \<and>
       (generateContent part = None \<or>
        (\<exists>t. generateContent part = Some t \<and> JSON_parse t = None))))"
  by (auto simp: try_block_def fileToGenerativePart_def split: option.splits sum.splits)

lemma settle_failure:
  assumes "try_block generateContent file = Inl err"
  shows "handleImageChange_settle generateContent file now s =
         s\<lparr>error := Some ''Failed to process receipt. Please try another image.'',
           isLoading := False, image' := None\<rparr>"
  using assms by (simp add: handleImageChange_settle_def)

lemma settle_success:
  assumes "try_block generateContent file = Inr pd"
  shows "handleImageChange_settle generateContent file now s =
         (useEffect_save (s\<lparr>expenses := new_expense pd now # expenses s\<rparr>))
           \<lparr>isLoading := False, image' := None\<rparr>"
  using assms by (simp add: handleImageChange_settle_def)

lemma try_block_example:
  "try_block example_model example_file = Inr (processedData example_response)"
  by (simp add: try_block_def fileToGenerativePart_def example_model_def example_file_def
      JSON_parse_def)

lemma json_num_safe: "json_safe_num x \<Longrightarrow> json_num x = x"
  by (auto simp: json_safe_num_def json_num_def is_finite_def split: option.splits jsnum.splits)

lemma json_item_safe: "json_safe_item item \<Longrightarrow> json_item item = item"
  by (simp add: json_safe_item_def json_item_def json_num_safe)

lemma json_expense_safe: "json_safe_expense e \<Longrightarrow> json_expense e = e"
  by (cases "items e")
     (simp_all add: json_safe_expense_def json_expense_def json_num_safe list_all_iff
        json_item_safe map_idI)

lemma map_json_expense_safe: "list_all json_safe_expense xs \<Longrightarrow> map json_expense xs = xs"
  by (simp add: list_all_iff json_expense_safe map_idI)

lemma json_expense_id [simp]: "id' (json_expense e) = id' e"
  by (simp add: json_expense_def)

lemma useEffect_save_expenses [simp]: "expenses (useEffect_save s) = expenses s"
  by (simp add: useEffect_save_def split: option.splits)

lemma useEffect_save_userId [simp]: "userId (useEffect_save s) = userId s"
  by (simp add: useEffect_save_def split: option.splits)

lemma persisted_useEffect_save:
  assumes "userId s = Some u" "u \<noteq> []"
    "\<not> rejects (localStorage s) (storageKey u) (JSON_stringify (expenses s))"
  shows "persisted (useEffect_save s) = Some (map json_expense (expenses s))"
  using assms
  by (simp add: persisted_def useEffect_save_def setItem_def getItem_def JSON_parse_def
      JSON_stringify_def)

lemma persisted_frame [simp]: "persisted (s\<lparr>isLoading := b, image' := i\<rparr>) = persisted s"
  by (simp add: persisted_def split: option.splits)

text \<open>
  C7. When an ingestion fails in any stage (the file read, the model request, or the
  decoding of the response), the error cell holds the one message of the handler, the
  loading flag and the preview are cleared, and the collection and the store are as they
  were. This holds for the handler run without interruption and for its settling part
  run on whatever state the awaited stages return to.
\<close>

theorem C7_failed_ingestion:
  assumes "reader_result file = None \<or>
    (\<exists>part. fileToGenerativePart file = Inr part \<and>
       (generateContent part = None \<or>
        (\<exists>t. generateContent part = Some t \<and> JSON_parse t = None)))"
  shows "error (handleImageChange generateContent (Some file) now s) =
           Some ''Failed to process receipt. Please try another image.'' \<and>
         isLoading (handleImageChange generateContent (Some file) now s) = False \<and>
         image' (handleImageChange generateContent (Some file) now s) = None \<and>
         expenses (handleImageChange generateContent (Some file) now s) = expenses s \<and>
         localStorage (handleImageChange generateContent (Some file) now s) = localStorage s \<and>
         error (handleImageChange_settle generateContent file now s) =
           Some ''Failed to process receipt. Please try another image.'' \<and>
         isLoading (handleImageChange_settle generateContent file now s) = False \<and>
         image' (handleImageChange_settle generateContent file now s) = None \<and>
         expenses (handleImageChange_settle generateContent file now s) = expenses s \<and>
         localStorage (handleImageChange_settle generateContent file now s) = localStorage s"
proof -
  from assms obtain err where "try_block generateContent file = Inl err"
    using try_block_fails_iff by blast
  then show ?thesis
    by (simp add: handleImageChange_def handleImageChange_begin_def settle_failure)
qed

theorem C7_failed_ingestion_witness:
  "error (handleImageChange example_model (Some unreadable_file) 1714521600000
            (initial empty_storage)) =
     Some ''Failed to process receipt. Please try another image.'' \<and>
   isLoading (handleImageChange example_model (Some unreadable_file) 1714521600000
            (initial empty_storage)) = False \<and>
   expenses (handleImageChange example_model (Some unreadable_file) 1714521600000
            (initial empty_storage)) = [] \<and>
   error (handleImageChange (\<lambda>imagePart. None) (Some example_file) 1714521600000
            (initial empty_storage)) =
     Some ''Failed to process receipt. Please try another image.'' \<and>
   error (handleImageChange (\<lambda>imagePart. Some (Other ''<html>'')) (Some example_file)
            1714521600000 (initial empty_storage)) =
     Some ''Failed to process receipt. Please try another image.''"
proof -
  have read: "reader_result unreadable_file = None"
    by (simp add: unreadable_file_def)
  have part: "fileToGenerativePart example_file =
      Inr \<lparr>data = Some ''iVBORw0KGgo='', mimeType = ''image/png''\<rparr>"
    by (simp add: fileToGenerativePart_def example_file_def split_second_def)
  have decode: "JSON_parse (Other ''<html>'' :: ParsedData json_text) = None"
    by (simp add: JSON_parse_def)
  show ?thesis
    using C7_failed_ingestion [of unreadable_file example_model 1714521600000
        "initial empty_storage"]
      C7_failed_ingestion [of example_file "\<lambda>imagePart. None" 1714521600000
        "initial empty_storage"]
      C7_failed_ingestion [of example_file "\<lambda>imagePart. Some (Other ''<html>'')"
        1714521600000 "initial empty_storage"]
      read part decode
    by (simp add: initial_def)
qed

text \<open>
  C1, as stated, fails when the store refuses the write: the ingestion succeeds and the
  collection in memory holds the new record, while the store still holds the old, empty
  collection.
\<close>

theorem C1_counterexample:
  "try_block example_model example_file = Inr (processedData example_response) \<and>
   expenses (handleImageChange example_model (Some example_file) 1714521600000
      ((initial full_storage)\<lparr>userId := Some ''user_1''\<rparr>)) =
     [new_expense (processedData example_response) 1714521600000] \<and>
   persisted (handleImageChange example_model (Some example_file) 1714521600000
      ((initial full_storage)\<lparr>userId := Some ''user_1''\<rparr>)) = Some [] \<and>
   persisted (handleImageChange example_model (Some example_file) 1714521600000
      ((initial full_storage)\<lparr>userId := Some ''user_1''\<rparr>)) \<noteq>
     Some (expenses (handleImageChange example_model (Some example_file) 1714521600000
      ((initial full_storage)\<lparr>userId := Some ''user_1''\<rparr>)))"
  by (simp add: try_block_example handleImageChange_def handleImageChange_begin_def
      settle_success initial_def full_storage_def persisted_def useEffect_save_def setItem_def
      getItem_def storageKey_def JSON_parse_def)

text \<open>
  C1 (amended). A successful ingestion puts exactly one new record, the processed response
  with the clock reading \<open>Date.now()\<close> as its id, at the front of the collection and leaves the
  rest as it was. When an identity is set and the store accepts the write, the persisted
  collection is the JSON value of the collection in memory, and equals it when every
  amount in it is finite.
\<close>

theorem C1_successful_ingestion:
  assumes "try_block generateContent file = Inr pd"
  shows "expenses (handleImageChange_settle generateContent file now s) =
           new_expense pd now # expenses s \<and>
         id' (new_expense pd now) = now \<and>
         ParsedData.truncate (new_expense pd now) = pd \<and>
         expenses (handleImageChange generateContent (Some file) now s) =
           new_expense pd now # expenses s \<and>
         (\<forall>u. userId s = Some u \<and> u \<noteq> [] \<and>
            \<not> rejects (localStorage s) (storageKey u)
                (JSON_stringify (new_expense pd now # expenses s)) \<longrightarrow>
            persisted (handleImageChange_settle generateContent file now s) =
              Some (map json_expense (new_expense pd now # expenses s)) \<and>
            (list_all json_safe_expense (new_expense pd now # expenses s) \<longrightarrow>
               persisted (handleImageChange_settle generateContent file now s) =
                 Some (expenses (handleImageChange_settle generateContent file now s))))"
proof -
  let ?s' = "handleImageChange_settle generateContent file now s"
  let ?xs = "new_expense pd now # expenses s"
  have settle: "expenses ?s' = ?xs"
    using assms by (simp add: settle_success)
  have whole: "expenses (handleImageChange generateContent (Some file) now s) = ?xs"
    using assms by (simp add: handleImageChange_def handleImageChange_begin_def settle_success)
  have fresh: "id' (new_expense pd now) = now" "ParsedData.truncate (new_expense pd now) = pd"
    by (simp_all add: new_expense_def ParsedData.defs Expense.defs)
  have stored: "persisted ?s' = Some (map json_expense ?xs)"
    if "userId s = Some u" "u \<noteq> []"
      "\<not> rejects (localStorage s) (storageKey u) (JSON_stringify ?xs)" for u
    using that assms persisted_useEffect_save [of "s\<lparr>expenses := ?xs\<rparr>" u]
    by (simp add: settle_success)
  show ?thesis
    using settle whole fresh stored by (auto simp: map_json_expense_safe simp del: list.map)
qed

lemma example_expense_safe:
  "list_all json_safe_expense [new_expense (processedData example_response) 1714521600000]"
  by (simp add: new_expense_def processedData_def example_response_def ParsedData.defs
      Expense.defs json_safe_expense_def json_safe_item_def json_safe_num_def is_finite_def
      normalize_item_def or_number_def or_prop_def truthy_num_def)

theorem C1_successful_ingestion_witness:
  "expenses (handleImageChange_settle example_model example_file 1714521600000
      ((initial empty_storage)\<lparr>userId := Some ''user_1''\<rparr>)) =
     [new_expense (processedData example_response) 1714521600000] \<and>
   persisted (handleImageChange_settle example_model example_file 1714521600000
      ((initial empty_storage)\<lparr>userId := Some ''user_1''\<rparr>)) =
     Some [new_expense (processedData example_response) 1714521600000]"
proof -
  let ?s = "(initial empty_storage)\<lparr>userId := Some ''user_1''\<rparr>"
  let ?e = "new_expense (processedData example_response) 1714521600000"
  let ?s' = "handleImageChange_settle example_model example_file 1714521600000 ?s"
  note c1 = C1_successful_ingestion [OF try_block_example, of 1714521600000 ?s]
  have empty: "expenses ?s = []"
    by (simp add: initial_def)
  have pre: "userId ?s = Some ''user_1'' \<and> ''user_1'' \<noteq> [] \<and>
      \<not> rejects (localStorage ?s) (storageKey ''user_1'') (JSON_stringify (?e # expenses ?s))"
    by (simp add: initial_def empty_storage_def)
  have safe: "list_all json_safe_expense (?e # expenses ?s)"
    using example_expense_safe empty by simp
  from c1 have front: "expenses ?s' = ?e # expenses ?s"
    by blast
  from c1 pre safe have "persisted ?s' = Some (expenses ?s')"
    by blast
  with front empty show ?thesis
    by simp
qed

subsection \<open>Persistence\<close>

lemma useEffect_save_stored:
  assumes "userId s = Some u" "u \<noteq> []"
    "\<not> rejects (localStorage s) (storageKey u) (JSON_stringify (expenses s))"
  shows "getItem (localStorage (useEffect_save s)) (storageKey u) =
         Some (JSON (map json_expense (expenses s)))"
  using assms
  by (simp add: useEffect_save_def setItem_def getItem_def JSON_stringify_def)

lemma milk_expense_fields:
  "milk_expense =
     \<lparr>merchant = Some ''Mart'', date = Some ''2024-05-01'', total' = Some (Finite 1200),
      currency = Some ''KRW'',
      items = Some [\<lparr>description = Some ''Milk'', description_en = Some ''Milk'',
                     quantity = Some (Finite 1), unit_price = Some (Finite 1200),
                     price = Some (Finite 1200)\<rparr>],
      id' = 1714521600000\<rparr>"
  by (simp add: milk_expense_def new_expense_def processedData_def example_response_def
      ParsedData.defs Expense.defs normalize_item_def or_number_def or_prop_def or_str_def
      truthy_num_def)

lemma example_state_safe: "list_all json_safe_expense (expenses example_state)"
  by (simp add: example_state_def milk_expense_fields undated_expense_def json_safe_expense_def
      json_safe_item_def json_safe_num_def is_finite_def)

text \<open>
  C4, as stated, fails for a collection that holds an amount that is not finite: a response
  with the total \<open>1e999\<close> is ingested with the total \<open>Infinity\<close>, the store receives \<open>null\<close> for
  it, and a later load yields a record without total.
\<close>

theorem C4_counterexample:
  "expenses (handleImageChange overflow_model (Some example_file) 1714521600000
      ((initial empty_storage)\<lparr>userId := Some ''user_1''\<rparr>)) =
     [new_expense (processedData overflow_response) 1714521600000] \<and>
   total' (new_expense (processedData overflow_response) 1714521600000) = Some PosInfinity \<and>
   map total' (expenses (useEffect_load
      ((initial (localStorage (handleImageChange overflow_model (Some example_file) 1714521600000
          ((initial empty_storage)\<lparr>userId := Some ''user_1''\<rparr>))))
       \<lparr>userId := Some ''user_1''\<rparr>))) = [None] \<and>
   expenses (useEffect_load
      ((initial (localStorage (handleImageChange overflow_model (Some example_file) 1714521600000
          ((initial empty_storage)\<lparr>userId := Some ''user_1''\<rparr>))))
       \<lparr>userId := Some ''user_1''\<rparr>)) \<noteq>
   expenses (handleImageChange overflow_model (Some example_file) 1714521600000
      ((initial empty_storage)\<lparr>userId := Some ''user_1''\<rparr>))"
proof -
  have tb: "try_block overflow_model example_file = Inr (processedData overflow_response)"
    by (simp add: try_block_def fileToGenerativePart_def overflow_model_def example_file_def
        JSON_parse_def)
  have tot: "total' (new_expense (processedData overflow_response) 1714521600000) = Some PosInfinity"
    by (simp add: new_expense_def processedData_def overflow_response_def ParsedData.defs
        Expense.defs)
  let ?s = "handleImageChange overflow_model (Some example_file) 1714521600000
      ((initial empty_storage)\<lparr>userId := Some ''user_1''\<rparr>)"
  have mem: "expenses ?s = [new_expense (processedData overflow_response) 1714521600000]"
    using tb by (simp add: handleImageChange_def handleImageChange_begin_def settle_success
        initial_def)
  have sto: "getItem (localStorage ?s) (storageKey ''user_1'') =
      Some (JSON [json_expense (new_expense (processedData overflow_response) 1714521600000)])"
    using tb by (simp add: handleImageChange_def handleImageChange_begin_def settle_success
        initial_def useEffect_save_def setItem_def getItem_def empty_storage_def
        JSON_stringify_def)
  have load: "expenses (useEffect_load ((initial (localStorage ?s))\<lparr>userId := Some ''user_1''\<rparr>)) =
      [json_expense (new_expense (processedData overflow_response) 1714521600000)]"
    using sto by (simp add: useEffect_load_def initial_def JSON_parse_def)
  have lost: "total' (json_expense (new_expense (processedData overflow_response) 1714521600000)) = None"
    by (simp add: json_expense_def tot json_num_def)
  from mem tot load lost show ?thesis
    by auto
qed

text \<open>
  C4 (amended). For every identity (a non-empty token) and every collection, when the store
  accepts the write, a later load for the same identity yields the JSON value of the saved
  collection: the same records in the same order, each with its items in order, where an
  amount that is not finite has become absent. When every amount of the collection is
  finite, the loaded collection equals the saved one. The load reports no error.
\<close>

theorem C4_round_trip:
  assumes "u \<noteq> []" and "userId s = Some u"
    and "\<not> rejects (localStorage s) (storageKey u) (JSON_stringify (expenses s))"
  shows "expenses (useEffect_load
           (later\<lparr>userId := Some u, localStorage := localStorage (useEffect_save s)\<rparr>)) =
           map json_expense (expenses s) \<and>
         (list_all json_safe_expense (expenses s) \<longrightarrow>
            expenses (useEffect_load
              (later\<lparr>userId := Some u, localStorage := localStorage (useEffect_save s)\<rparr>)) =
              expenses s) \<and>
         error (useEffect_load
           (later\<lparr>userId := Some u, localStorage := localStorage (useEffect_save s)\<rparr>)) =
           error later"
proof -
  let ?l = "later\<lparr>userId := Some u, localStorage := localStorage (useEffect_save s)\<rparr>"
  have "getItem (localStorage ?l) (storageKey u) = Some (JSON (map json_expense (expenses s)))"
    using useEffect_save_stored [OF assms(2) assms(1) assms(3)] by simp
  then have load: "useEffect_load ?l = ?l\<lparr>expenses := map json_expense (expenses s)\<rparr>"
    using assms(1) by (simp add: useEffect_load_def JSON_parse_def)
  then show ?thesis
    by (simp add: map_json_expense_safe)
qed

theorem C4_round_trip_witness:
  "expenses (useEffect_load
     ((initial empty_storage)\<lparr>userId := Some ''user_1'',
        localStorage := localStorage (useEffect_save example_state)\<rparr>)) =
   [milk_expense, undated_expense]"
proof -
  have pre: "''user_1'' \<noteq> []" "userId example_state = Some ''user_1''"
    "\<not> rejects (localStorage example_state) (storageKey ''user_1'')
        (JSON_stringify (expenses example_state))"
    by (simp_all add: example_state_def initial_def empty_storage_def)
  from C4_round_trip [OF pre, of "initial empty_storage"] example_state_safe
  have "expenses (useEffect_load
     ((initial empty_storage)\<lparr>userId := Some ''user_1'',
        localStorage := localStorage (useEffect_save example_state)\<rparr>)) =
     expenses example_state"
    by blast
  then show ?thesis
    by (simp add: example_state_def)
qed

subsection \<open>Aggregate total\<close>





subsection \<open>Editing\<close>

lemma apply_edit_frame:
  "expenses (apply_edit pf e s) = expenses s \<and> editingId (apply_edit pf e s) = editingId s \<and>
   localStorage (apply_edit pf e s) = localStorage s \<and>
   map_option id' (editedExpense (apply_edit pf e s)) = map_option id' (editedExpense s)"
  by (cases e)
     (auto simp: handleFieldChange_def handleItemChange_def handleAddItem_def handleRemoveItem_def
        split: option.splits field_name.splits)

lemma apply_edits_frame:
  "expenses (apply_edits pf es s) = expenses s \<and> editingId (apply_edits pf es s) = editingId s \<and>
   localStorage (apply_edits pf es s) = localStorage s \<and>
   map_option id' (editedExpense (apply_edits pf es s)) = map_option id' (editedExpense s)"
  by (induction es arbitrary: s) (simp_all add: apply_edit_frame)

lemma handleSaveEdit_expenses:
  "editedExpense s = Some buffer \<Longrightarrow>
   expenses (handleSaveEdit s) =
     map (\<lambda>exp. if Some (id' exp) = editingId s then buffer else exp) (expenses s)"
  by (simp add: handleSaveEdit_def handleCancelEdit_def)

lemma map_replace_distinct:
  assumes "distinct (map f xs)" and "i < length xs"
  shows "map (\<lambda>x. if f x = f (xs ! i) then b else x) xs = xs[i := b]"
proof (rule nth_equalityI)
  show "length (map (\<lambda>x. if f x = f (xs ! i) then b else x) xs) = length (xs[i := b])"
    by simp
next
  fix j
  assume "j < length (map (\<lambda>x. if f x = f (xs ! i) then b else x) xs)"
  then have j: "j < length xs"
    by simp
  have "f (xs ! j) = f (xs ! i) \<longleftrightarrow> j = i"
    using assms j nth_eq_iff_index_eq [of "map f xs" j i] by auto
  with j assms(2) show "map (\<lambda>x. if f x = f (xs ! i) then b else x) xs ! j = xs[i := b] ! j"
    by (simp add: nth_list_update)
qed

lemma cafe_expense_fields:
  "cafe_expense =
     \<lparr>merchant = Some ''Cafe'', date = Some ''2024-05-01'', total' = Some (Finite 900),
      currency = Some ''KRW'', items = Some [], id' = 1714521600000\<rparr>"
  by (simp add: cafe_expense_def new_expense_def processedData_def cafe_response_def
      ParsedData.defs Expense.defs)

lemma try_block_cafe: "try_block cafe_model example_file = Inr (processedData cafe_response)"
  by (simp add: try_block_def fileToGenerativePart_def cafe_model_def example_file_def
      JSON_parse_def)

text \<open>
  C8, as stated, fails for a collection in which two records share an id: after two
  ingestions that settle at the same clock reading the collection holds the record of the
  cafe and the record of the mart under one id, and saving an edit of the first (here an
  edit that changes nothing) overwrites the second, a different record, with the buffer.
\<close>

theorem C8_counterexample:
  "expenses (handleImageChange_settle cafe_model example_file 1714521600000
      (handleImageChange_settle example_model example_file 1714521600000
        (initial empty_storage))) = [cafe_expense, milk_expense] \<and>
   cafe_expense \<noteq> milk_expense \<and>
   expenses (handleSaveEdit (handleEdit cafe_expense
      (handleImageChange_settle cafe_model example_file 1714521600000
        (handleImageChange_settle example_model example_file 1714521600000
          (initial empty_storage))))) = [cafe_expense, cafe_expense] \<and>
   expenses (handleSaveEdit (handleEdit cafe_expense
      (handleImageChange_settle cafe_model example_file 1714521600000
        (handleImageChange_settle example_model example_file 1714521600000
          (initial empty_storage))))) ! 1 \<noteq>
   expenses (handleImageChange_settle cafe_model example_file 1714521600000
      (handleImageChange_settle example_model example_file 1714521600000
        (initial empty_storage))) ! 1"
proof -
  let ?s = "handleImageChange_settle cafe_model example_file 1714521600000
      (handleImageChange_settle example_model example_file 1714521600000
        (initial empty_storage))"
  have before: "expenses ?s = [cafe_expense, milk_expense]"
    by (simp add: settle_success [OF try_block_cafe] settle_success [OF try_block_example]
        initial_def cafe_expense_def milk_expense_def)
  have differ: "cafe_expense \<noteq> milk_expense"
    by (simp add: cafe_expense_fields milk_expense_fields)
  have buffer: "editedExpense (handleEdit cafe_expense ?s) = Some cafe_expense"
    "editingId (handleEdit cafe_expense ?s) = Some 1714521600000"
    "expenses (handleEdit cafe_expense ?s) = [cafe_expense, milk_expense]"
    using before
    by (simp_all add: handleEdit_def json_expense_def json_num_def cafe_expense_fields)
  have after: "expenses (handleSaveEdit (handleEdit cafe_expense ?s)) =
      [cafe_expense, cafe_expense]"
    using handleSaveEdit_expenses [OF buffer(1)] buffer(2,3)
    by (simp add: cafe_expense_fields milk_expense_fields)
  from before differ after show ?thesis
    by simp
qed

text \<open>
  C8 (amended). For every collection whose records have pairwise different ids and every
  record in it: after \<open>handleEdit\<close> on that record and any edits of the form, the buffer still
  carries the id of that record and the collection is untouched; \<open>handleSaveEdit\<close> then puts
  the buffer in the place of exactly that record, and every other record stays what and
  where it was.
\<close>

theorem C8_commit_edit:
  assumes "distinct (map id' (expenses s))" and "i < length (expenses s)"
  shows "\<exists>buffer.
     editedExpense (apply_edits parseFloat edits (handleEdit (expenses s ! i) s)) = Some buffer \<and>
     id' buffer = id' (expenses s ! i) \<and>
     expenses (apply_edits parseFloat edits (handleEdit (expenses s ! i) s)) = expenses s \<and>
     expenses (handleSaveEdit (apply_edits parseFloat edits (handleEdit (expenses s ! i) s))) =
       (expenses s)[i := buffer] \<and>
     expenses (handleSaveEdit (apply_edits parseFloat edits (handleEdit (expenses s ! i) s))) ! i =
       buffer \<and>
     (\<forall>j < length (expenses s). j \<noteq> i \<longrightarrow>
        expenses (handleSaveEdit (apply_edits parseFloat edits (handleEdit (expenses s ! i) s))) ! j =
          expenses s ! j)"
proof -
  let ?e = "expenses s ! i"
  let ?s1 = "apply_edits parseFloat edits (handleEdit ?e s)"
  have frame: "expenses ?s1 = expenses s" "editingId ?s1 = Some (id' ?e)"
    "map_option id' (editedExpense ?s1) = Some (id' ?e)"
    using apply_edits_frame [of parseFloat edits "handleEdit ?e s"]
    by (simp_all add: handleEdit_def)
  then obtain buffer where buffer: "editedExpense ?s1 = Some buffer" "id' buffer = id' ?e"
    by auto
  have "expenses (handleSaveEdit ?s1) =
      map (\<lambda>exp. if id' exp = id' ?e then buffer else exp) (expenses s)"
    using handleSaveEdit_expenses [OF buffer(1)] frame by simp
  also have "\<dots> = (expenses s)[i := buffer]"
    using assms by (rule map_replace_distinct)
  finally have saved: "expenses (handleSaveEdit ?s1) = (expenses s)[i := buffer]" .
  from buffer frame saved assms(2) show ?thesis
    by auto
qed

theorem C8_commit_edit_witness:
  "expenses (handleSaveEdit (apply_edits example_parseFloat
      [FieldChange merchant_input ''Stand'', FieldChange total_input ''1500'']
      (handleEdit undated_expense example_state))) =
   [milk_expense, undated_expense\<lparr>merchant := Some ''Stand'', total' := Some (Finite 1500)\<rparr>]"
proof -
  have pre: "distinct (map id' (expenses example_state))" "1 < length (expenses example_state)"
    by (simp_all add: example_state_def milk_expense_fields undated_expense_def)
  have rec: "expenses example_state ! 1 = undated_expense"
    by (simp add: example_state_def)
  let ?s1 = "apply_edits example_parseFloat
      [FieldChange merchant_input ''Stand'', FieldChange total_input ''1500'']
      (handleEdit undated_expense example_state)"
  from C8_commit_edit [OF pre, of example_parseFloat
      "[FieldChange merchant_input ''Stand'', FieldChange total_input ''1500'']"]
  obtain buffer where buffer: "editedExpense ?s1 = Some buffer"
    and saved: "expenses (handleSaveEdit ?s1) = (expenses example_state)[1 := buffer]"
    unfolding rec by blast
  have "editedExpense ?s1 =
      Some (undated_expense\<lparr>merchant := Some ''Stand'', total' := Some (Finite 1500)\<rparr>)"
    by (simp add: handleEdit_def handleFieldChange_def example_parseFloat_def or_number_def
        truthy_num_def json_expense_def undated_expense_def json_num_def)
  with buffer have "buffer = undated_expense\<lparr>merchant := Some ''Stand'', total' := Some (Finite 1500)\<rparr>"
    by simp
  with saved show ?thesis
    by (simp add: example_state_def)
qed

subsection \<open>Unique ids\<close>

text \<open>
  C3, as stated, fails for two successful ingestions that settle at the same clock
  reading: two uploads are in flight, both responses arrive within one millisecond, and
  both records get that reading as id.
\<close>

theorem C3_counterexample:
  "map id' (expenses
     (handleImageChange_settle example_model example_file 1714521600000
       (handleImageChange_settle example_model example_file 1714521600000
         (handleImageChange_begin (Some example_file)
           (handleImageChange_begin (Some example_file)
             ((initial empty_storage)\<lparr>userId := Some ''user_1''\<rparr>)))))) =
     [1714521600000, 1714521600000] \<and>
   \<not> distinct (map id' (expenses
     (handleImageChange_settle example_model example_file 1714521600000
       (handleImageChange_settle example_model example_file 1714521600000
         (handleImageChange_begin (Some example_file)
           (handleImageChange_begin (Some example_file)
             ((initial empty_storage)\<lparr>userId := Some ''user_1''\<rparr>)))))))"
  by (simp add: handleImageChange_begin_def settle_success [OF try_block_example] initial_def
      new_expense_def ParsedData.defs Expense.defs)

lemma id_json_comp: "id' \<circ> json_expense = id'"
  by (rule ext) simp

lemma storage_unique_setItem:
  "storage_unique st \<Longrightarrow> distinct (map id' xs) \<Longrightarrow> setItem st k (JSON_stringify xs) = Some st' \<Longrightarrow>
   storage_unique st'"
  by (auto simp: storage_unique_def setItem_def JSON_stringify_def id_json_comp split: if_splits)

lemma unique_ids_save: "unique_ids s \<Longrightarrow> unique_ids (useEffect_save s)"
  by (auto simp: unique_ids_def useEffect_save_def split: option.splits
      dest: storage_unique_setItem)

lemma unique_ids_load: "unique_ids s \<Longrightarrow> unique_ids (useEffect_load s)"
  by (auto simp: unique_ids_def useEffect_load_def getItem_def JSON_parse_def storage_unique_def
      split: option.splits json_text.splits)

lemma distinct_map_replace:
  assumes "distinct (map f xs)" "f b = k"
  shows "distinct (map f (map (\<lambda>x. if f x = k then b else x) xs))"
proof -
  have "map f (map (\<lambda>x. if f x = k then b else x) xs) = map f xs"
    using assms(2) by (induction xs) auto
  with assms(1) show ?thesis by (simp only:)
qed

lemma unique_ids_commit: "unique_ids s \<Longrightarrow> unique_ids (handleSaveEdit s)"
proof -
  assume u: "unique_ids s"
  show ?thesis
  proof (cases "editedExpense s")
    case None
    with u have "unique_ids (handleCancelEdit s)"
      by (simp add: unique_ids_def handleCancelEdit_def)
    with None show ?thesis
      by (simp add: handleSaveEdit_def unique_ids_save)
  next
    case (Some buffer)
    with u have eid: "editingId s = Some (id' buffer)"
      by (simp add: unique_ids_def)
    have "distinct (map id' (map (\<lambda>exp. if id' exp = id' buffer then buffer else exp) (expenses s)))"
      using u by (intro distinct_map_replace) (simp_all add: unique_ids_def)
    with u have "unique_ids (handleCancelEdit
        (s\<lparr>expenses := map (\<lambda>exp. if Some (id' exp) = editingId s then buffer else exp)
                           (expenses s)\<rparr>))"
      by (simp add: unique_ids_def handleCancelEdit_def eid)
    with Some show ?thesis
      by (simp add: handleSaveEdit_def unique_ids_save)
  qed
qed

lemma unique_ids_delete: "unique_ids s \<Longrightarrow> unique_ids (handleDelete i confirmed s)"
proof -
  assume u: "unique_ids s"
  then have "unique_ids (s\<lparr>expenses := filter (\<lambda>exp. id' exp \<noteq> i) (expenses s)\<rparr>)"
    by (simp add: unique_ids_def distinct_map_filter)
  then have "unique_ids (useEffect_save (s\<lparr>expenses := filter (\<lambda>exp. id' exp \<noteq> i) (expenses s)\<rparr>))"
    by (rule unique_ids_save)
  with u show ?thesis
    by (simp add: handleDelete_def)
qed

lemma unique_ids_change: "unique_ids s \<Longrightarrow> unique_ids (apply_edit parseFloat e s)"
  using apply_edit_frame [of parseFloat e s]
  by (cases "editedExpense (apply_edit parseFloat e s)"; cases "editedExpense s")
     (auto simp: unique_ids_def)

lemma unique_ids_settle:
  assumes "unique_ids s"
    and "(\<exists>err. try_block generateContent file = Inl err) \<or> now \<notin> id' ` set (expenses s)"
  shows "unique_ids (handleImageChange_settle generateContent file now s)"
proof (cases "try_block generateContent file")
  case (Inl err)
  with assms(1) show ?thesis
    by (simp add: settle_failure unique_ids_def)
next
  case (Inr pd)
  with assms(2) have "now \<notin> id' ` set (expenses s)"
    by simp
  moreover have "id' (new_expense pd now) = now"
    by (simp add: new_expense_def ParsedData.defs Expense.defs)
  ultimately have "unique_ids (s\<lparr>expenses := new_expense pd now # expenses s\<rparr>)"
    using assms(1) by (simp add: unique_ids_def)
  then have "unique_ids (useEffect_save (s\<lparr>expenses := new_expense pd now # expenses s\<rparr>))"
    by (rule unique_ids_save)
  then show ?thesis
    by (simp add: settle_success [OF Inr] unique_ids_def)
qed

lemma reachable_unique_ids: "reachable s \<Longrightarrow> unique_ids s"
proof (induction rule: reachable.induct)
  case (start st)
  then show ?case by (simp add: unique_ids_def initial_def)
next
  case (identity s u)
  then show ?case by (simp add: unique_ids_def)
next
  case (load s)
  then show ?case by (simp add: unique_ids_load)
next
  case (save s)
  then show ?case by (simp add: unique_ids_save)
next
  case (select s f)
  then show ?case by (simp add: unique_ids_def handleImageChange_begin_def split: option.splits)
next
  case (settle s generateContent f now)
  then show ?case by (simp add: unique_ids_settle)
next
  case (toggle s)
  then show ?case by (simp add: unique_ids_def toggleSortOrder_def)
next
  case (edit s expense)
  then show ?case by (simp add: unique_ids_def handleEdit_def)
next
  case (change s parseFloat e)
  then show ?case by (simp add: unique_ids_change)
next
  case (cancel s)
  then show ?case by (simp add: unique_ids_def handleCancelEdit_def)
next
  case (commit s)
  then show ?case by (simp add: unique_ids_commit)
next
  case (delete s i confirmed)
  then show ?case by (simp add: unique_ids_delete)
qed

text \<open>
  C3 (amended). In every reachable state the records of the collection have pairwise
  different ids, provided every successful ingestion settles at a clock reading that is
  not already the id of a record of the collection (and the stored collections had
  different ids at the start). Ingestion at such a reading, commitEdit and delete all
  keep the ids different.
\<close>

theorem C3_unique_ids:
  "reachable s \<Longrightarrow>
   distinct (map id' (expenses s)) \<and>
   (\<forall>i < length (expenses s). \<forall>j < length (expenses s).
      i \<noteq> j \<longrightarrow> id' (expenses s ! i) \<noteq> id' (expenses s ! j))"
  using reachable_unique_ids [of s]
  by (auto simp: unique_ids_def distinct_conv_nth)

theorem C3_unique_ids_witness:
  "distinct (map id' (expenses
     (handleImageChange_settle example_model example_file 1714521660000
       (handleImageChange_settle example_model example_file 1714521600000
         (initial empty_storage)))))"
proof -
  have "storage_unique empty_storage"
    by (simp add: storage_unique_def empty_storage_def)
  then have r0: "reachable (initial empty_storage)"
    by (rule reachable.start)
  have "(\<exists>err. try_block example_model example_file = Inl err) \<or>
      1714521600000 \<notin> id' ` set (expenses (initial empty_storage))"
    by (simp add: initial_def)
  with r0 have r1: "reachable (handleImageChange_settle example_model example_file
      1714521600000 (initial empty_storage))"
    by (rule reachable.settle)
  have "(\<exists>err. try_block example_model example_file = Inl err) \<or>
      1714521660000 \<notin> id' ` set (expenses (handleImageChange_settle example_model example_file
        1714521600000 (initial empty_storage)))"
    by (simp add: settle_success [OF try_block_example] initial_def new_expense_def
        ParsedData.defs Expense.defs)
  with r1 have "reachable (handleImageChange_settle example_model example_file 1714521660000
      (handleImageChange_settle example_model example_file 1714521600000
        (initial empty_storage)))"
    by (rule reachable.settle)
  then show ?thesis
    using C3_unique_ids by blast
qed

subsection \<open>Sorting\<close>

text \<open>
  C5, as stated, fails for a record dated before 1970: a missing date is read as the
  epoch start, so in ascending order the record of 1969-12-31 comes before the record
  without date, and in descending order after it.
\<close>

theorem C5_counterexample:
  "date undated_expense = None \<and>
   getTime example_Date_parse undated_expense = Some 0 \<and>
   getTime example_Date_parse old_expense = Some (- 86400000) \<and>
   sortedExpenses example_Date_parse
     ((initial empty_storage)\<lparr>sortOrder := Asc, expenses := [undated_expense, old_expense]\<rparr>) =
     [old_expense, undated_expense] \<and>
   sortedExpenses example_Date_parse
     ((initial empty_storage)\<lparr>sortOrder := Desc, expenses := [old_expense, undated_expense]\<rparr>) =
     [undated_expense, old_expense]"
  by (simp add: sortedExpenses_def Array_sort_def compareFn_def getTime_def initial_def
      undated_expense_def old_expense_def example_Date_parse_def)

lemma compareFn_key:
  "valid_date P a \<Longrightarrow> valid_date P b \<Longrightarrow>
   (compareFn P order a b \<le> 0) = (sort_key_of P order a \<le> sort_key_of P order b)"
  by (auto simp: compareFn_def valid_date_def time_value_def sort_key_of_def)

lemma insert_by_insort:
  "valid_date P x \<Longrightarrow> list_all (valid_date P) ys \<Longrightarrow>
   insert_by (compareFn P order) x ys = insort_key (sort_key_of P order) x ys"
  by (induction ys) (simp_all add: compareFn_key)

lemma Array_sort_sort_key:
  "list_all (valid_date P) xs \<Longrightarrow>
   Array_sort (compareFn P order) xs = sort_key (sort_key_of P order) xs"
proof (induction xs)
  case Nil
  then show ?case by (simp add: Array_sort_def)
next
  case (Cons x xs)
  then have ih: "Array_sort (compareFn P order) xs = sort_key (sort_key_of P order) xs"
    by simp
  from Cons.prems have "list_all (valid_date P) (sort_key (sort_key_of P order) xs)"
    by (simp add: list_all_iff)
  with Cons.prems ih show ?case
    by (simp add: Array_sort_def insert_by_insort sort_key_def)
qed

lemma sorted_neg_rev: "sorted (map (\<lambda>x. - f x) xs) = sorted (rev (map f xs :: int list))"
  by (induction xs) (auto simp: sorted_append)

lemma heap_untouched:
  assumes "a < length h"
  shows "fst (sortedExpenses_on_heap P order h a) ! a = h ! a \<and>
         snd (sortedExpenses_on_heap P order h a) \<noteq> a \<and>
         fst (sortedExpenses_on_heap P order h a) ! snd (sortedExpenses_on_heap P order h a) =
           Array_sort (compareFn P order) (h ! a)"
  using assms
  by (simp add: sortedExpenses_on_heap_def spread_def sort_in_place_def nth_append)

text \<open>
  C5 (amended). For every collection whose dates the runtime can read and either sort
  order: the display copy holds the same records, ordered by time value (ascending for
  \<open>asc\<close>, descending for \<open>desc\<close>), where a missing or empty date has the time value 0 of the
  epoch start; records with equal time values keep their order; sorting the output again
  gives the same sequence; and the array of the collection is not written to, the sort
  working on a copy.
\<close>

theorem C5_sorting:
  assumes "list_all (valid_date Date_parse) (expenses s)"
  shows "mset (sortedExpenses Date_parse s) = mset (expenses s) \<and>
    (sortOrder s = Asc \<longrightarrow> sorted (map (time_value Date_parse) (sortedExpenses Date_parse s))) \<and>
    (sortOrder s = Desc \<longrightarrow>
       sorted (rev (map (time_value Date_parse) (sortedExpenses Date_parse s)))) \<and>
    (\<forall>e \<in> set (expenses s). date e = None \<or> date e = Some [] \<longrightarrow> time_value Date_parse e = 0) \<and>
    (\<forall>t. filter (\<lambda>e. time_value Date_parse e = t) (sortedExpenses Date_parse s) =
         filter (\<lambda>e. time_value Date_parse e = t) (expenses s)) \<and>
    sortedExpenses Date_parse (s\<lparr>expenses := sortedExpenses Date_parse s\<rparr>) =
      sortedExpenses Date_parse s \<and>
    expenses (s\<lparr>expenses := sortedExpenses Date_parse s\<rparr>) = sortedExpenses Date_parse s \<and>
    (\<forall>h a. a < length h \<and> h ! a = expenses s \<longrightarrow>
       fst (sortedExpenses_on_heap Date_parse (sortOrder s) h a) ! a = expenses s \<and>
       fst (sortedExpenses_on_heap Date_parse (sortOrder s) h a) !
         snd (sortedExpenses_on_heap Date_parse (sortOrder s) h a) = sortedExpenses Date_parse s)"
proof -
  let ?k = "sort_key_of Date_parse (sortOrder s)"
  have eq: "sortedExpenses Date_parse s = sort_key ?k (expenses s)"
    using assms by (simp add: sortedExpenses_def Array_sort_sort_key)
  have perm: "mset (sortedExpenses Date_parse s) = mset (expenses s)"
    by (simp add: eq)
  have srt: "sorted (map ?k (sortedExpenses Date_parse s))"
    by (simp add: eq)
  have asc: "sorted (map (time_value Date_parse) (sortedExpenses Date_parse s))"
    if "sortOrder s = Asc"
    using srt that by (simp add: sort_key_of_def [abs_def])
  have desc: "sorted (rev (map (time_value Date_parse) (sortedExpenses Date_parse s)))"
    if "sortOrder s = Desc"
    using srt that by (simp add: sort_key_of_def [abs_def] sorted_neg_rev)
  have missing: "time_value Date_parse e = 0" if "date e = None \<or> date e = Some []" for e :: Expense
    using that by (auto simp: time_value_def getTime_def)
  have stable: "filter (\<lambda>e. time_value Date_parse e = t) (sortedExpenses Date_parse s) =
         filter (\<lambda>e. time_value Date_parse e = t) (expenses s)" for t
  proof -
    have "(\<lambda>e::Expense. time_value Date_parse e = t) =
          (\<lambda>e. ?k e = (if sortOrder s = Desc then - t else t))"
      by (auto simp: sort_key_of_def)
    then have "filter (\<lambda>e. time_value Date_parse e = t) (sort_key ?k (expenses s)) =
        filter (\<lambda>e. time_value Date_parse e = t) (expenses s)"
      using sort_key_stable [of ?k "if sortOrder s = Desc then - t else t" "expenses s"]
      by (simp only:)
    then show ?thesis
      by (simp only: eq)
  qed
  have valid': "list_all (valid_date Date_parse) (sortedExpenses Date_parse s)"
    using assms by (simp add: eq list_all_iff)
  have idem: "sortedExpenses Date_parse (s\<lparr>expenses := sortedExpenses Date_parse s\<rparr>) =
      sortedExpenses Date_parse s"
  proof -
    have "sortedExpenses Date_parse (s\<lparr>expenses := sortedExpenses Date_parse s\<rparr>) =
        sort_key ?k (sortedExpenses Date_parse s)"
      using valid' by (simp add: sortedExpenses_def Array_sort_sort_key)
    also have "\<dots> = sortedExpenses Date_parse s"
      using srt by (rule sort_key_id_if_sorted)
    finally show ?thesis .
  qed
  have heap: "fst (sortedExpenses_on_heap Date_parse (sortOrder s) h a) ! a = expenses s \<and>
       fst (sortedExpenses_on_heap Date_parse (sortOrder s) h a) !
         snd (sortedExpenses_on_heap Date_parse (sortOrder s) h a) = sortedExpenses Date_parse s"
    if "a < length h \<and> h ! a = expenses s" for h a
    using that heap_untouched [of a h Date_parse "sortOrder s"]
    by (simp add: sortedExpenses_def)
  from perm asc desc missing stable idem heap show ?thesis
    by (simp (no_asm_simp))
qed

theorem C5_sorting_witness:
  "sortedExpenses example_Date_parse (example_state\<lparr>sortOrder := Asc\<rparr>) =
     [undated_expense, milk_expense] \<and>
   sortedExpenses example_Date_parse
     (example_state\<lparr>sortOrder := Asc, expenses := [undated_expense, milk_expense]\<rparr>) =
     [undated_expense, milk_expense]"
proof -
  let ?s = "example_state\<lparr>sortOrder := Asc\<rparr>"
  have valid: "list_all (valid_date example_Date_parse) (expenses ?s)"
    by (simp add: example_state_def valid_date_def getTime_def milk_expense_fields
        undated_expense_def example_Date_parse_def)
  have sorted: "sortedExpenses example_Date_parse ?s = [undated_expense, milk_expense]"
    by (simp add: sortedExpenses_def Array_sort_def compareFn_def getTime_def example_state_def
        milk_expense_fields undated_expense_def example_Date_parse_def)
  from C5_sorting [OF valid]
  have "sortedExpenses example_Date_parse
      (?s\<lparr>expenses := sortedExpenses example_Date_parse ?s\<rparr>) =
      sortedExpenses example_Date_parse ?s"
    by blast
  with sorted show ?thesis
    by simp
qed

end
